theory Spec2Isabelle
  imports Complex_Main "HOL-Library.Multiset" "HOL-Library.Char_ord" "HOL-Library.List_Lexorder"
begin

section \<open>The table and the library operations the dashboard calls\<close>

text \<open>
  The dashboard script reads one CSV file into a data frame and derives seven summary
  tables from it. A data frame is a list of rows; a cell that is missing (NaN) is
  \<open>None\<close>. The two numeric columns are exact rationals here, which stand for the
  script's float64 cells.
\<close>

record row =
  activity_type :: "string option"
  gender :: "string option"
  intensity :: "string option"
  age_category :: "string option"
  duration_minutes :: "rat option"
  calories_burned :: "rat option"

text \<open>
  \<^verbatim>\<open>Series.map(dict)\<close>: a cell whose value is a key of the dictionary becomes the
  dictionary's value; every other cell, a missing one included, becomes missing.
\<close>

definition series_map :: "('a \<rightharpoonup> 'b) \<Rightarrow> 'a option \<Rightarrow> 'b option" where
  "series_map d v = (case v of None \<Rightarrow> None | Some x \<Rightarrow> d x)"

text \<open>
  \<^verbatim>\<open>pd.Categorical(values, categories=cats, ordered=True)\<close>: a value outside the
  categories becomes missing. The code of a category is its position in \<open>cats\<close>.
\<close>

definition Categorical :: "'a list \<Rightarrow> 'a option \<Rightarrow> 'a option" where
  "Categorical cats v =
     (case v of None \<Rightarrow> None | Some x \<Rightarrow> if x \<in> set cats then Some x else None)"

fun cat_code :: "'a list \<Rightarrow> 'a \<Rightarrow> nat" where
  "cat_code [] x = 0"
| "cat_code (c # cs) x = (if c = x then 0 else Suc (cat_code cs x))"

text \<open>
  The sorting routine behind \<^verbatim>\<open>sort_values\<close>: the rows with a key are sorted, the
  rows whose key is missing follow them in table order. A descending sort reverses
  the rows, sorts them ascending and reverses the result. The ascending sort is the
  insertion sort \<^const>\<open>sort_key\<close>; the library's default sort kind promises nothing on
  the relative order of rows with equal keys, and no theorem below depends on it.
\<close>

definition nargsort :: "bool \<Rightarrow> ('r \<Rightarrow> 'k::linorder option) \<Rightarrow> 'r list \<Rightarrow> 'r list" where
  "nargsort ascending key rows =
     (let non_nans = filter (\<lambda>r. key r \<noteq> None) rows;
          nans = filter (\<lambda>r. key r = None) rows;
          k = (\<lambda>r. the (key r))
      in (if ascending then sort_key k non_nans else rev (sort_key k (rev non_nans))) @ nans)"

text \<open>
  \<^verbatim>\<open>Series.value_counts()\<close> on a categorical column: one count for every category,
  also for a category no cell holds, missing cells not counted, sorted by count,
  largest first.
\<close>

definition value_counts :: "'a list \<Rightarrow> 'a option list \<Rightarrow> ('a \<times> nat) list" where
  "value_counts cats col =
     nargsort False (\<lambda>r. Some (snd r)) (map (\<lambda>c. (c, count_list col (Some c))) cats)"

text \<open>
  The group keys of a column that is not categorical: its distinct values, missing
  cells left out, in sorted order.
\<close>

definition group_levels :: "'a::linorder option list \<Rightarrow> 'a list" where
  "group_levels col = sort (remdups (map the (filter (\<lambda>v. v \<noteq> None) col)))"

text \<open>
  \<^verbatim>\<open>groupby(key)\<close> and \<^verbatim>\<open>groupby([key1, key2])\<close> with the groups in key order.
  The levels of a categorical key are all its categories, those of another key its
  \<^const>\<open>group_levels\<close>. With \<^verbatim>\<open>observed=True\<close> only the groups that hold a row
  are kept; with \<^verbatim>\<open>observed=False\<close> every combination of levels is a group.
\<close>

definition groupby1 ::
  "bool \<Rightarrow> 'a list \<Rightarrow> ('r \<Rightarrow> 'a option) \<Rightarrow> 'r list \<Rightarrow> ('a \<times> 'r list) list" where
  "groupby1 observed levels key rows =
     filter (\<lambda>(a, grp). if observed then grp \<noteq> [] else True)
       (map (\<lambda>a. (a, filter (\<lambda>r. key r = Some a) rows)) levels)"

definition groupby2 ::
  "bool \<Rightarrow> 'a list \<Rightarrow> 'b list \<Rightarrow> ('r \<Rightarrow> 'a option) \<Rightarrow> ('r \<Rightarrow> 'b option) \<Rightarrow> 'r list
     \<Rightarrow> (('a \<times> 'b) \<times> 'r list) list" where
  "groupby2 observed levels1 levels2 key1 key2 rows =
     filter (\<lambda>(k, grp). if observed then grp \<noteq> [] else True)
       (map (\<lambda>(a, b). ((a, b), filter (\<lambda>r. key1 r = Some a \<and> key2 r = Some b) rows))
          (List.product levels1 levels2))"

text \<open>The mean of a column skips missing cells and is missing when nothing is left.\<close>

definition mean :: "rat option list \<Rightarrow> rat option" where
  "mean col =
     (let vals = map the (filter (\<lambda>v. v \<noteq> None) col)
      in if vals = [] then None else Some (sum_list vals / of_nat (length vals)))"

text \<open>\<^verbatim>\<open>Series.unique()\<close>: the distinct values in order of first occurrence.\<close>

fun unique :: "'a list \<Rightarrow> 'a list" where
  "unique [] = []"
| "unique (x # xs) = x # unique (filter (\<lambda>y. y \<noteq> x) xs)"

section \<open>Loading\<close>

definition activity_order :: "string list" where
  "activity_order =
     [''Running'', ''Cycling'', ''Swimming'', ''Yoga'', ''Walking'', ''HIIT'', ''Dancing'',
      ''Weight Training'', ''Tennis'', ''Basketball'']"

definition gender_names :: "string \<rightharpoonup> string" where
  "gender_names = [''F'' \<mapsto> ''Female'', ''M'' \<mapsto> ''Male'']"

text \<open>\<open>load_data\<close> takes the rows of the CSV file as they were read.\<close>

definition load_data :: "row list \<Rightarrow> row list" where
  "load_data csv = map (\<lambda>r. r\<lparr>gender := series_map gender_names (gender r)\<rparr>) csv"

text \<open>The module-level frame: the loaded table with its activity column made categorical.\<close>

definition df :: "row list \<Rightarrow> row list" where
  "df csv =
     map (\<lambda>r. r\<lparr>activity_type := Categorical activity_order (activity_type r)\<rparr>) (load_data csv)"

section \<open>The seven derivations\<close>

text \<open>
  Steps 2, 4, 6 and 7 group by the categorical activity column and leave
  \<^verbatim>\<open>observed\<close> unset, so their grouping follows the default of the library: it
  is \<^verbatim>\<open>False\<close> in the versions before 3.0 and \<^verbatim>\<open>True\<close> from 3.0 on, and the
  script names no version. The default is the first argument of these steps. Step 3
  passes \<^verbatim>\<open>observed=True\<close> itself.
\<close>

text \<open>Step 1: the number of rows of each activity, rows with frequency 0 filtered out.\<close>

definition activity_frequency :: "row list \<Rightarrow> (string \<times> nat) list" where
  "activity_frequency t =
     filter (\<lambda>(a, frequency). frequency > 0)
       (value_counts activity_order (map activity_type t))"

text \<open>Step 2: the size of each (activity, gender) group.\<close>

definition activity_frequency_by_gender :: "bool \<Rightarrow> row list \<Rightarrow> (string \<times> string \<times> nat) list" where
  "activity_frequency_by_gender observed_default t =
     map (\<lambda>((a, g), grp). (a, g, length grp))
       (groupby2 observed_default activity_order (group_levels (map gender t))
          activity_type gender t)"

text \<open>
  Step 3: mean calories and mean duration of each observed activity, sorted by mean
  calories, largest first, then the rows with a missing cell dropped.
\<close>

definition activity_stats :: "row list \<Rightarrow> (string \<times> rat option \<times> rat option) list" where
  "activity_stats t =
     map (\<lambda>(a, grp). (a, mean (map calories_burned grp), mean (map duration_minutes grp)))
       (groupby1 True activity_order activity_type t)"

definition avg_calories_burned :: "string \<times> rat option \<times> rat option \<Rightarrow> rat option" where
  "avg_calories_burned r = fst (snd r)"

definition avg_duration :: "string \<times> rat option \<times> rat option \<Rightarrow> rat option" where
  "avg_duration r = snd (snd r)"

definition dropna :: "(string \<times> rat option \<times> rat option) list
    \<Rightarrow> (string \<times> rat option \<times> rat option) list" where
  "dropna rows = filter (\<lambda>r. avg_calories_burned r \<noteq> None \<and> avg_duration r \<noteq> None) rows"

definition top_activities :: "row list \<Rightarrow> (string \<times> rat option \<times> rat option) list" where
  "top_activities t = dropna (nargsort False avg_calories_burned (activity_stats t))"

text \<open>
  Step 4: the size of each (activity, intensity) group, rows with count 0 filtered out.
  The conversion of the intensity column to strings leaves its strings as they are.
\<close>

definition activity_summary :: "bool \<Rightarrow> row list \<Rightarrow> (string \<times> string \<times> nat) list" where
  "activity_summary observed_default t =
     filter (\<lambda>(a, i, count). count > 0)
       (map (\<lambda>((a, i), grp). (a, i, length grp))
          (groupby2 observed_default activity_order (group_levels (map intensity t))
             activity_type intensity t))"

text \<open>
  Step 5: the rows of the chosen gender, sorted by activity. The script draws the
  scatter chart when the selection holds a row and shows a warning otherwise.
\<close>

datatype scatter_view = Scatter "row list" | No_data_warning

definition scatter_filter :: "row list \<Rightarrow> string \<Rightarrow> scatter_view" where
  "scatter_filter t g =
     (let filtered_df =
            nargsort True (\<lambda>r. map_option (cat_code activity_order) (activity_type r))
              (filter (\<lambda>r. gender r = Some g) t)
      in if filtered_df \<noteq> [] then Scatter filtered_df else No_data_warning)"

text \<open>
  The rank of a row in a sort by activity: the code of its activity, and a row with a
  missing activity after all others.
\<close>

definition activity_rank :: "row \<Rightarrow> nat" where
  "activity_rank r =
     (case activity_type r of None \<Rightarrow> length activity_order
      | Some a \<Rightarrow> cat_code activity_order a)"

text \<open>
  Step 6: the mean calories of each (activity, gender) group among the rows of the
  chosen intensity, the node labels, the dictionary from label to node index, and the
  links of the diagram.
\<close>

definition sankey_data ::
  "bool \<Rightarrow> row list \<Rightarrow> string \<Rightarrow> (string \<times> string \<times> rat option) list" where
  "sankey_data observed_default t intensity_level =
     (let filtered_sankey_data = filter (\<lambda>r. intensity r = Some intensity_level) t
      in map (\<lambda>((a, g), grp). (a, g, mean (map calories_burned grp)))
           (groupby2 observed_default activity_order
              (group_levels (map gender filtered_sankey_data))
              activity_type gender filtered_sankey_data))"

definition activity_labels :: "(string \<times> string \<times> rat option) list \<Rightarrow> string list" where
  "activity_labels sd = unique (map (\<lambda>(a, g, c). a) sd)"

definition gender_labels :: "(string \<times> string \<times> rat option) list \<Rightarrow> string list" where
  "gender_labels sd = unique (map (\<lambda>(a, g, c). g) sd)"

definition all_labels :: "(string \<times> string \<times> rat option) list \<Rightarrow> string list" where
  "all_labels sd = activity_labels sd @ gender_labels sd"

text \<open>
  The dictionary comprehension over \<^verbatim>\<open>enumerate(all_labels)\<close> stores the entries in
  list order, so a label that occurs twice keeps its last index.
\<close>

definition label_indices :: "string list \<Rightarrow> (string \<rightharpoonup> nat)" where
  "label_indices labels = fold (\<lambda>(i, label) d. d(label \<mapsto> i)) (enumerate 0 labels) Map.empty"

text \<open>A link is the source index, the target index and the value of a summary row.\<close>

definition sankey_links ::
  "(string \<times> string \<times> rat option) list \<Rightarrow> (nat option \<times> nat option \<times> rat option) list" where
  "sankey_links sd =
     map (\<lambda>(a, g, c).
            (series_map (label_indices (all_labels sd)) (Some a),
             series_map (label_indices (all_labels sd)) (Some g), c)) sd"

text \<open>
  Step 7: the mean calories of each (age category, activity) group among the rows of
  the chosen intensity.
\<close>

definition age_activity_stats ::
  "bool \<Rightarrow> row list \<Rightarrow> string \<Rightarrow> (string \<times> string \<times> rat option) list" where
  "age_activity_stats observed_default t intensity_level =
     (let filtered_df = filter (\<lambda>r. intensity r = Some intensity_level) t
      in map (\<lambda>((c, a), grp). (c, a, mean (map calories_burned grp)))
           (groupby2 observed_default (group_levels (map age_category filtered_df))
              activity_order age_category activity_type filtered_df))"

section \<open>Example tables\<close>

text \<open>
  A row with an activity, a gender, an intensity, a duration and calories, and no age
  category; the table of three rows of the worked example; and the small tables on
  which the theorems below are tried.
\<close>

definition mk_row :: "string \<Rightarrow> string \<Rightarrow> string \<Rightarrow> rat \<Rightarrow> rat \<Rightarrow> row" where
  "mk_row a g i d c =
     \<lparr>activity_type = Some a, gender = Some g, intensity = Some i, age_category = None,
      duration_minutes = Some d, calories_burned = Some c\<rparr>"

definition example_table :: "row list" where
  "example_table =
     [mk_row ''Running'' ''Male'' ''High'' 30 300,
      mk_row ''Running'' ''Female'' ''High'' 25 260,
      mk_row ''Yoga'' ''Female'' ''Low'' 40 150]"

text \<open>More Yoga rows than Running rows.\<close>

definition yoga_table :: "row list" where
  "yoga_table =
     [mk_row ''Running'' ''Male'' ''High'' 30 300,
      mk_row ''Yoga'' ''Male'' ''Low'' 40 150,
      mk_row ''Yoga'' ''Female'' ''Low'' 40 150]"

text \<open>A CSV table with the genders F, M and Other.\<close>

definition other_gender_csv :: "row list" where
  "other_gender_csv =
     [mk_row ''Running'' ''F'' ''High'' 30 300,
      mk_row ''Yoga'' ''M'' ''Low'' 40 150,
      mk_row ''Yoga'' ''Other'' ''Low'' 40 150]"

text \<open>Two activities with the same mean calories.\<close>

definition tie_table :: "row list" where
  "tie_table =
     [mk_row ''Running'' ''Male'' ''High'' 30 300,
      mk_row ''Yoga'' ''Female'' ''Low'' 40 300]"

text \<open>An activity whose only row has no calories.\<close>

definition no_calories_table :: "row list" where
  "no_calories_table =
     [mk_row ''Running'' ''Male'' ''High'' 30 300,
      (mk_row ''Yoga'' ''Female'' ''Low'' 40 0)\<lparr>calories_burned := None\<rparr>]"

text \<open>One activity and one gender.\<close>

definition single_row_table :: "row list" where
  "single_row_table = [mk_row ''Running'' ''Male'' ''High'' 30 300]"

text \<open>
  A CSV table as the loader reads it, and its step 6 summary for High with all
  combinations of levels as groups.
\<close>

definition flow_csv :: "row list" where
  "flow_csv =
     [mk_row ''Running'' ''M'' ''High'' 30 300,
      mk_row ''Running'' ''F'' ''High'' 25 260,
      mk_row ''Yoga'' ''F'' ''Low'' 40 150]"

definition flow_summary :: "(string \<times> string \<times> rat option) list" where
  "flow_summary = sankey_data False (df flow_csv) ''High''"

section \<open>Facts about the library operations\<close>

lemma filter_nans_non_nans:
  "filter (\<lambda>r. key r \<noteq> None) (filter (\<lambda>r. key r = None) rows) = []"
  by (induction rows) auto

lemma nargsort_non_nans:
  "filter (\<lambda>r. key r \<noteq> None) (nargsort False key rows) =
     rev (sort_key (\<lambda>r. the (key r)) (rev (filter (\<lambda>r. key r \<noteq> None) rows)))"
proof -
  let ?s = "sort_key (\<lambda>r. the (key r)) (rev (filter (\<lambda>r. key r \<noteq> None) rows))"
  have "filter (\<lambda>r. key r \<noteq> None) ?s = ?s"
    by (rule filter_True) simp
  then show ?thesis
    using filter_nans_non_nans [of key rows]
    by (simp add: nargsort_def Let_def flip: rev_filter)
qed

lemma nargsort_descending:
  "sorted_wrt (\<lambda>x y. the (key x) \<ge> the (key y))
     (filter (\<lambda>r. key r \<noteq> None) (nargsort False key rows))"
proof -
  let ?k = "\<lambda>r. the (key r)"
  let ?s = "sort_key ?k (rev (filter (\<lambda>r. key r \<noteq> None) rows))"
  have "sorted (map ?k ?s)" by (rule sorted_sort_key)
  then have "sorted_wrt (\<lambda>x y. ?k x \<le> ?k y) ?s"
    by (simp add: sorted_map)
  then have "sorted_wrt (\<lambda>x y. ?k y \<le> ?k x) (rev ?s)"
    by (simp add: sorted_wrt_rev)
  then show ?thesis
    by (simp only: nargsort_non_nans)
qed

lemma set_nargsort: "set (nargsort asc key rows) = set rows"
  by (auto simp: nargsort_def Let_def)

lemma mset_nargsort: "mset (nargsort asc key rows) = mset rows"
  by (simp add: nargsort_def Let_def)

lemma nargsort_Nil_iff: "nargsort asc key rows = [] \<longleftrightarrow> rows = []"
  using set_nargsort [of asc key rows] by (metis set_empty)

lemma value_counts_descending:
  "sorted_wrt (\<lambda>x y. snd x \<ge> snd y) (value_counts cats col)"
  using nargsort_descending [of "\<lambda>r. Some (snd r)" "map (\<lambda>c. (c, count_list col (Some c))) cats"]
  by (simp add: value_counts_def)

lemma set_value_counts:
  "set (value_counts cats col) = (\<lambda>c. (c, count_list col (Some c))) ` set cats"
  by (simp add: value_counts_def set_nargsort)

section \<open>Grouping by two keys\<close>

lemma set_group_levels: "set (group_levels col) = {x. Some x \<in> set col}"
proof -
  have "the ` {v \<in> set col. v \<noteq> None} = {x. Some x \<in> set col}"
    by (auto simp: image_iff) force
  then show ?thesis
    by (simp add: group_levels_def)
qed

lemma group_levels_Nil: "group_levels [] = []"
  by (simp add: group_levels_def)

lemma groupby2_all:
  "groupby2 False levels1 levels2 key1 key2 rows =
     map (\<lambda>(a, b). ((a, b), filter (\<lambda>r. key1 r = Some a \<and> key2 r = Some b) rows))
       (List.product levels1 levels2)"
  by (simp add: groupby2_def)

lemma groupby2_keys:
  "((a, b), grp) \<in> set (groupby2 observed levels1 levels2 key1 key2 rows) \<Longrightarrow>
     a \<in> set levels1 \<and> b \<in> set levels2
     \<and> grp = filter (\<lambda>r. key1 r = Some a \<and> key2 r = Some b) rows"
  by (auto simp: groupby2_def)

lemma groupby2_observed:
  "(k, grp) \<in> set (groupby2 True levels1 levels2 key1 key2 rows) \<Longrightarrow> grp \<noteq> []"
  by (auto simp: groupby2_def)

lemma product_no_levels: "List.product levels1 [] = []"
  by (induction levels1) simp_all

lemma groupby2_no_levels:
  "groupby2 observed levels1 [] key1 key2 rows = []"
  "groupby2 observed [] levels2 key1 key2 rows = []"
  by (simp_all add: groupby2_def product_no_levels)

section \<open>Loading: the gender column\<close>

lemma series_map_gender_names:
  "series_map gender_names v =
     (if v = Some ''F'' then Some ''Female'' else if v = Some ''M'' then Some ''Male'' else None)"
  by (cases v) (auto simp: series_map_def gender_names_def)

lemma load_data_gender_cases:
  assumes "r \<in> set (load_data csv)" and "gender r = Some g"
  shows "g = ''Male'' \<or> g = ''Female''"
proof -
  from assms(1) obtain r0 where "r = r0\<lparr>gender := series_map gender_names (gender r0)\<rparr>"
    by (auto simp: load_data_def)
  with assms(2) have "series_map gender_names (gender r0) = Some g"
    by simp
  then show ?thesis
    by (auto simp: series_map_gender_names split: if_splits)
qed

lemma df_gender_cases:
  assumes "r \<in> set (df csv)" and "gender r = Some g"
  shows "g = ''Male'' \<or> g = ''Female''"
proof -
  from assms(1) obtain r0 where r0: "r0 \<in> set (load_data csv)"
    and "r = r0\<lparr>activity_type := Categorical activity_order (activity_type r0)\<rparr>"
    by (auto simp: df_def)
  with assms(2) have "gender r0 = Some g"
    by simp
  with r0 show ?thesis
    by (rule load_data_gender_cases)
qed

text \<open>
  C2, as stated, fails: loading maps F to Female and M to Male, but a row whose gender
  is any other value does not keep it. The value Other becomes a missing cell.
\<close>

theorem load_data_other_gender_counterexample:
  "map gender other_gender_csv = [Some ''F'', Some ''M'', Some ''Other'']
   \<and> map gender (load_data other_gender_csv) = [Some ''Female'', Some ''Male'', None]"
proof
  show "map gender other_gender_csv = [Some ''F'', Some ''M'', Some ''Other'']"
    by code_simp
  show "map gender (load_data other_gender_csv) = [Some ''Female'', Some ''Male'', None]"
    by code_simp
qed

text \<open>
  C2, as the script has it: loading keeps the rows and all their other cells, maps the
  gender F to Female and M to Male, and makes every other gender cell missing.
\<close>

theorem load_data_gender_normalized:
  "length (load_data csv) = length csv
   \<and> (i < length csv \<longrightarrow>
        load_data csv ! i = (csv ! i)\<lparr>gender :=
          (if gender (csv ! i) = Some ''F'' then Some ''Female''
           else if gender (csv ! i) = Some ''M'' then Some ''Male'' else None)\<rparr>)"
  by (simp add: load_data_def series_map_gender_names)

theorem load_data_gender_normalized_witness:
  "length (load_data other_gender_csv) = 3 \<and> (2::nat) < length other_gender_csv
   \<and> gender (other_gender_csv ! 2) = Some ''Other''
   \<and> load_data other_gender_csv ! 2 = (other_gender_csv ! 2)\<lparr>gender := None\<rparr>"
proof -
  have l: "length other_gender_csv = 3"
    by code_simp
  have g: "gender (other_gender_csv ! 2) = Some ''Other''"
    by code_simp
  have i: "(2::nat) < length other_gender_csv"
    by (simp add: l)
  from load_data_gender_normalized [where csv = other_gender_csv and i = 2, THEN conjunct2, THEN mp, OF i]
  have "load_data other_gender_csv ! 2 = (other_gender_csv ! 2)\<lparr>gender := None\<rparr>"
    by (simp add: g)
  moreover from load_data_gender_normalized [where csv = other_gender_csv and i = 2, THEN conjunct1]
  have "length (load_data other_gender_csv) = 3"
    by (simp add: l)
  ultimately show ?thesis
    using i g by simp
qed

text \<open>
  C8. For every table the loader produces, and for the frame built from it, every
  gender value that occurs is Male or Female. A cell that held anything but F or M is
  missing after the load and holds no value.
\<close>

theorem loaded_gender_values:
  "{g. Some g \<in> gender ` set (load_data csv)} \<subseteq> {''Male'', ''Female''}
   \<and> {g. Some g \<in> gender ` set (df csv)} \<subseteq> {''Male'', ''Female''}"
proof
  show "{g. Some g \<in> gender ` set (load_data csv)} \<subseteq> {''Male'', ''Female''}"
    using load_data_gender_cases [of _ csv] by (auto simp: image_iff) metis
  show "{g. Some g \<in> gender ` set (df csv)} \<subseteq> {''Male'', ''Female''}"
    using df_gender_cases [of _ csv] by (auto simp: image_iff) metis
qed

theorem loaded_gender_values_witness:
  "{g. Some g \<in> gender ` set (load_data other_gender_csv)} \<subseteq> {''Male'', ''Female''}
   \<and> Some ''Female'' \<in> gender ` set (load_data other_gender_csv)"
proof
  show "{g. Some g \<in> gender ` set (load_data other_gender_csv)} \<subseteq> {''Male'', ''Female''}"
    by (rule loaded_gender_values [where csv = other_gender_csv, THEN conjunct1])
  show "Some ''Female'' \<in> gender ` set (load_data other_gender_csv)"
    by code_simp
qed

section \<open>Step 1: activity frequency\<close>

text \<open>
  C7. For every base table, no row of the step 1 output has frequency 0: an activity
  that no row of the table has is not in the output.
\<close>

theorem activity_frequency_no_zero:
  "((a, frequency) \<in> set (activity_frequency t) \<longrightarrow> frequency > 0)
   \<and> (count_list (map activity_type t) (Some b) = 0
          \<longrightarrow> b \<notin> fst ` set (activity_frequency t))"
  by (auto simp: activity_frequency_def set_value_counts)

theorem activity_frequency_no_zero_witness:
  "(''Yoga'', 1) \<in> set (activity_frequency example_table) \<and> (1::nat) > 0
   \<and> count_list (map activity_type example_table) (Some ''Tennis'') = 0
   \<and> ''Tennis'' \<notin> fst ` set (activity_frequency example_table)"
proof -
  have m: "(''Yoga'', 1) \<in> set (activity_frequency example_table)"
    by code_simp
  have z: "count_list (map activity_type example_table) (Some ''Tennis'') = 0"
    by code_simp
  have "''Tennis'' \<notin> fst ` set (activity_frequency example_table)"
    by (rule activity_frequency_no_zero
        [where t = example_table and b = "''Tennis''", THEN conjunct2, THEN mp, OF z])
  with m z show ?thesis
    by (intro conjI) simp_all
qed

text \<open>
  C10. For every base table, the rows of the step 1 output are in descending order of
  frequency. This is not the order of the ten activities: a table with more Yoga rows
  than Running rows lists Yoga first.
\<close>

theorem activity_frequency_descending:
  "sorted_wrt (\<lambda>x y. snd x \<ge> snd y) (activity_frequency t)
   \<and> (\<exists>t'. map fst (activity_frequency t') = [''Yoga'', ''Running''])"
proof
  show "sorted_wrt (\<lambda>x y. snd x \<ge> snd y) (activity_frequency t)"
    unfolding activity_frequency_def
    by (rule sorted_wrt_filter) (rule value_counts_descending)
  have "map fst (activity_frequency yoga_table) = [''Yoga'', ''Running'']"
    by code_simp
  then show "\<exists>t'. map fst (activity_frequency t') = [''Yoga'', ''Running'']"
    by (rule exI [where x = yoga_table])
qed

theorem activity_frequency_descending_witness:
  "sorted_wrt (\<lambda>x y. snd x \<ge> snd y) (activity_frequency example_table)
   \<and> map snd (activity_frequency example_table) = [2, 1]"
proof
  show "sorted_wrt (\<lambda>x y. snd x \<ge> snd y) (activity_frequency example_table)"
    by (rule activity_frequency_descending [where t = example_table, THEN conjunct1])
  show "map snd (activity_frequency example_table) = [2, 1]"
    by code_simp
qed

section \<open>Step 2: frequency by gender\<close>

text \<open>
  With observed groups only, every row of the step 2 output has a matching row in the
  base table. With every combination of levels as a group, the output has a row for
  each of the ten activities with each gender of the table, also where no row matches.
\<close>

lemma frequency_by_gender_observed:
  assumes "(a, g, n) \<in> set (activity_frequency_by_gender True t)"
  shows "n > 0" and "\<exists>r \<in> set t. activity_type r = Some a \<and> gender r = Some g"
proof -
  let ?grp = "filter (\<lambda>r. activity_type r = Some a \<and> gender r = Some g) t"
  from assms obtain grp where g: "((a, g), grp) \<in> set (groupby2 True activity_order
      (group_levels (map gender t)) activity_type gender t)" and n: "n = length grp"
    by (auto simp: activity_frequency_by_gender_def)
  from g have "grp \<noteq> []"
    by (rule groupby2_observed)
  moreover from groupby2_keys [OF g] have "grp = ?grp"
    by (elim conjE)
  ultimately have "?grp \<noteq> []" and "n = length ?grp"
    using n by simp_all
  then show "n > 0" and "\<exists>r \<in> set t. activity_type r = Some a \<and> gender r = Some g"
    by (auto simp: filter_empty_conv)
qed

lemma frequency_by_gender_all_levels:
  "(a, g, n) \<in> set (activity_frequency_by_gender False t) \<longleftrightarrow>
     a \<in> set activity_order \<and> Some g \<in> gender ` set t
     \<and> n = length (filter (\<lambda>r. activity_type r = Some a \<and> gender r = Some g) t)"
  by (auto simp: activity_frequency_by_gender_def groupby2_all set_group_levels image_iff)

text \<open>
  C3. The step 2 output should have no row for a combination of activity and gender
  that no row of the base table matches. The script reaches this only with the
  grouping default of the library from 3.0 on. With the default before 3.0, the table
  of one row (Running, Male) gives every one of the ten activities with Male, nine of
  them with frequency 0: step 2 neither filters the zero rows, as steps 1 and 4 do,
  nor asks for observed groups, as step 3 does.
\<close>

theorem frequency_by_gender_zero_rows:
  "activity_frequency_by_gender False single_row_table =
     [(''Running'', ''Male'', 1), (''Cycling'', ''Male'', 0), (''Swimming'', ''Male'', 0),
      (''Yoga'', ''Male'', 0), (''Walking'', ''Male'', 0), (''HIIT'', ''Male'', 0),
      (''Dancing'', ''Male'', 0), (''Weight Training'', ''Male'', 0),
      (''Tennis'', ''Male'', 0), (''Basketball'', ''Male'', 0)]
   \<and> activity_frequency_by_gender True single_row_table = [(''Running'', ''Male'', 1)]"
proof
  show "activity_frequency_by_gender False single_row_table =
     [(''Running'', ''Male'', 1), (''Cycling'', ''Male'', 0), (''Swimming'', ''Male'', 0),
      (''Yoga'', ''Male'', 0), (''Walking'', ''Male'', 0), (''HIIT'', ''Male'', 0),
      (''Dancing'', ''Male'', 0), (''Weight Training'', ''Male'', 0),
      (''Tennis'', ''Male'', 0), (''Basketball'', ''Male'', 0)]"
    by code_simp
  show "activity_frequency_by_gender True single_row_table = [(''Running'', ''Male'', 1)]"
    by code_simp
qed

section \<open>Step 3: average calories and duration by activity\<close>

lemma dropna_nargsort:
  "dropna rows =
     filter (\<lambda>r. avg_duration r \<noteq> None) (filter (\<lambda>r. avg_calories_burned r \<noteq> None) rows)"
  by (induction rows) (auto simp: dropna_def)

lemma top_activities_sorted:
  "sorted_wrt (\<lambda>x y. the (avg_calories_burned x) \<ge> the (avg_calories_burned y))
     (top_activities t)"
  unfolding top_activities_def dropna_nargsort
  by (rule sorted_wrt_filter) (rule nargsort_descending)

lemma groupby1_observed:
  "(a, grp) \<in> set (groupby1 True levels key rows) \<Longrightarrow> Some a \<in> key ` set rows"
proof -
  assume "(a, grp) \<in> set (groupby1 True levels key rows)"
  then have "filter (\<lambda>r. key r = Some a) rows \<noteq> []"
    by (auto simp: groupby1_def)
  then obtain r where "r \<in> set rows" and "key r = Some a"
    by (auto simp: filter_empty_conv)
  then show ?thesis
    by (metis image_eqI)
qed

lemma mean_no_rows: "mean [] = None"
  by (simp add: mean_def)

lemma mean_map_no_rows: "mean (map f grp) \<noteq> None \<Longrightarrow> grp \<noteq> []"
  by (auto simp: mean_no_rows)

lemma set_activity_stats:
  "(a, c, d) \<in> set (activity_stats t) \<longleftrightarrow>
     a \<in> set activity_order \<and> filter (\<lambda>r. activity_type r = Some a) t \<noteq> []
     \<and> c = mean (map calories_burned (filter (\<lambda>r. activity_type r = Some a) t))
     \<and> d = mean (map duration_minutes (filter (\<lambda>r. activity_type r = Some a) t))"
  by (auto simp: activity_stats_def groupby1_def)

lemma set_top_activities:
  "(a, c, d) \<in> set (top_activities t) \<longleftrightarrow>
     a \<in> set activity_order
     \<and> c = mean (map calories_burned (filter (\<lambda>r. activity_type r = Some a) t))
     \<and> d = mean (map duration_minutes (filter (\<lambda>r. activity_type r = Some a) t))
     \<and> c \<noteq> None \<and> d \<noteq> None"
proof -
  have "(a, c, d) \<in> set (top_activities t) \<longleftrightarrow>
      (a, c, d) \<in> set (activity_stats t) \<and> c \<noteq> None \<and> d \<noteq> None"
    by (simp add: top_activities_def dropna_def set_nargsort avg_calories_burned_def
        avg_duration_def)
  then show ?thesis
    using mean_map_no_rows [of calories_burned "filter (\<lambda>r. activity_type r = Some a) t"]
    by (auto simp: set_activity_stats)
qed

lemma top_activities_observed:
  assumes "(a, c, d) \<in> set (top_activities t)"
  shows "Some a \<in> activity_type ` set t"
proof -
  from assms have "(a, c, d) \<in> set (activity_stats t)"
    by (simp add: top_activities_def dropna_def set_nargsort)
  then obtain grp where "(a, grp) \<in> set (groupby1 True activity_order activity_type t)"
    by (auto simp: activity_stats_def)
  then show ?thesis
    by (rule groupby1_observed)
qed

lemma distinct_activity_order: "distinct activity_order"
  by (simp add: activity_order_def)

lemma distinct_top_activities: "distinct (map fst (top_activities t))"
proof -
  let ?key = "\<lambda>a. filter (\<lambda>r. activity_type r = Some a) t \<noteq> []"
  have "map fst (activity_stats t) = filter ?key activity_order"
    by (simp add: activity_stats_def groupby1_def filter_map o_def case_prod_unfold)
  then have "distinct (map fst (activity_stats t))"
    by (simp add: distinct_activity_order)
  moreover have "mset (map fst (nargsort False avg_calories_burned (activity_stats t)))
      = mset (map fst (activity_stats t))"
    by (simp add: mset_nargsort)
  ultimately have "distinct (map fst (nargsort False avg_calories_burned (activity_stats t)))"
    by (metis mset_eq_imp_distinct_iff)
  then show ?thesis
    by (simp add: top_activities_def dropna_def distinct_map_filter)
qed

text \<open>
  C4, as stated, fails: the step 3 output is not always strictly descending. Two
  activities with the same mean calories are both in the output, one after the other.
\<close>

theorem top_activities_tie_counterexample:
  "top_activities tie_table = [(''Running'', Some 300, Some 30), (''Yoga'', Some 300, Some 40)]"
  by code_simp

text \<open>
  C4, as the script has it: for every base table the step 3 output is in descending
  order of mean calories, where equal means may follow each other, and no row of it
  has an undefined mean: its rows are, one for each, the activities of the fixed list
  whose mean calories and mean duration are both defined, and such an activity has a
  row in the table.
\<close>

theorem top_activities_descending:
  "sorted_wrt (\<lambda>x y. the (avg_calories_burned x) \<ge> the (avg_calories_burned y))
     (top_activities t)
   \<and> distinct (map fst (top_activities t))
   \<and> ((a, c, d) \<in> set (top_activities t) \<longleftrightarrow>
        a \<in> set activity_order
        \<and> c = mean (map calories_burned (filter (\<lambda>r. activity_type r = Some a) t))
        \<and> d = mean (map duration_minutes (filter (\<lambda>r. activity_type r = Some a) t))
        \<and> c \<noteq> None \<and> d \<noteq> None)
   \<and> ((a, c, d) \<in> set (top_activities t) \<longrightarrow> Some a \<in> activity_type ` set t)"
  using top_activities_sorted [of t] distinct_top_activities [of t]
    set_top_activities [of a c d t] top_activities_observed [of a c d t]
  by (intro conjI impI) assumption+

theorem top_activities_descending_witness:
  "sorted_wrt (\<lambda>x y. the (avg_calories_burned x) \<ge> the (avg_calories_burned y))
     (top_activities tie_table)
   \<and> distinct (map fst (top_activities tie_table))
   \<and> mean (map calories_burned (filter (\<lambda>r. activity_type r = Some ''Yoga'') tie_table))
       = Some 300
   \<and> (''Yoga'', Some 300, Some 40) \<in> set (top_activities tie_table)
   \<and> Some ''Yoga'' \<in> activity_type ` set tie_table
   \<and> top_activities no_calories_table = [(''Running'', Some 300, Some 30)]"
proof -
  have a: "''Yoga'' \<in> set activity_order"
    by code_simp
  have c: "Some 300 = mean (map calories_burned
      (filter (\<lambda>r. activity_type r = Some ''Yoga'') tie_table))"
    by code_simp
  have d: "Some 40 = mean (map duration_minutes
      (filter (\<lambda>r. activity_type r = Some ''Yoga'') tie_table))"
    by code_simp
  have n: "top_activities no_calories_table = [(''Running'', Some 300, Some 30)]"
    by code_simp
  note w = top_activities_descending
    [where t = tie_table and a = "''Yoga''" and c = "Some (300::rat)" and d = "Some (40::rat)"]
  have m: "(''Yoga'', Some 300, Some 40) \<in> set (top_activities tie_table)"
  proof (rule w [THEN conjunct2, THEN conjunct2, THEN conjunct1, THEN iffD2], intro conjI)
    show "''Yoga'' \<in> set activity_order"
      by (rule a)
    show "Some 300 = mean (map calories_burned
        (filter (\<lambda>r. activity_type r = Some ''Yoga'') tie_table))"
      by (rule c)
    show "Some 40 = mean (map duration_minutes
        (filter (\<lambda>r. activity_type r = Some ''Yoga'') tie_table))"
      by (rule d)
    show "Some (300::rat) \<noteq> None" and "Some (40::rat) \<noteq> None"
      by simp_all
  qed
  have o: "Some ''Yoga'' \<in> activity_type ` set tie_table"
    by (rule w [THEN conjunct2, THEN conjunct2, THEN conjunct2, THEN mp, OF m])
  from w [THEN conjunct1] w [THEN conjunct2, THEN conjunct1] c [symmetric] m o n
  show ?thesis
    by (intro conjI)
qed

section \<open>Step 5: the scatter selection\<close>

lemma cat_code_le: "cat_code cats x \<le> length cats"
  by (induction cats) simp_all

lemma nargsort_ascending:
  assumes below: "\<And>r. key r \<noteq> None \<Longrightarrow> rank r = the (key r)"
    and top: "\<And>r r'. key r' = None \<Longrightarrow> rank r \<le> rank r'"
  shows "sorted_wrt (\<lambda>x y. rank x \<le> (rank y :: 'k::linorder)) (nargsort True key rows)"
proof -
  let ?k = "\<lambda>r. the (key r)"
  let ?non_nans = "filter (\<lambda>r. key r \<noteq> None) rows"
  let ?nans = "filter (\<lambda>r. key r = None) rows"
  have "sorted (map ?k (sort_key ?k ?non_nans))"
    by (rule sorted_sort_key)
  then have "sorted_wrt (\<lambda>x y. ?k x \<le> ?k y) (sort_key ?k ?non_nans)"
    by (simp add: sorted_map)
  then have s1: "sorted_wrt (\<lambda>x y. rank x \<le> rank y) (sort_key ?k ?non_nans)"
    by (rule sorted_wrt_mono_rel [rotated]) (simp add: below)
  have "sorted_wrt (\<lambda>x y. True) ?nans"
    by (induction rows) simp_all
  then have s2: "sorted_wrt (\<lambda>x y. rank x \<le> rank y) ?nans"
    by (rule sorted_wrt_mono_rel [rotated]) (simp add: top)
  have s3: "\<forall>x \<in> set (sort_key ?k ?non_nans). \<forall>y \<in> set ?nans. rank x \<le> rank y"
    by (simp add: top)
  from s1 s2 s3 show ?thesis
    by (simp add: nargsort_def Let_def sorted_wrt_append)
qed

lemma scatter_filter_sorted:
  "sorted_wrt (\<lambda>x y. activity_rank x \<le> activity_rank y)
     (nargsort True (\<lambda>r. map_option (cat_code activity_order) (activity_type r)) rows)"
proof (rule nargsort_ascending)
  fix r :: row
  assume "map_option (cat_code activity_order) (activity_type r) \<noteq> None"
  then show "activity_rank r = the (map_option (cat_code activity_order) (activity_type r))"
    by (cases "activity_type r") (simp_all add: activity_rank_def)
next
  fix r r' :: row
  assume "map_option (cat_code activity_order) (activity_type r') = None"
  then have "activity_rank r' = length activity_order"
    by (simp add: activity_rank_def)
  moreover have "activity_rank r \<le> length activity_order"
    by (cases "activity_type r") (simp_all add: activity_rank_def cat_code_le)
  ultimately show "activity_rank r \<le> activity_rank r'"
    by simp
qed

text \<open>
  C6. When no row of the base table has the chosen gender, step 5 gives the no-data
  warning, which is neither a failure nor a table. Otherwise it gives the rows of that
  gender, each as often as the table has it, sorted by activity.
\<close>

theorem scatter_filter_view:
  "(filter (\<lambda>r. gender r = Some g) t = [] \<longrightarrow> scatter_filter t g = No_data_warning)
   \<and> (filter (\<lambda>r. gender r = Some g) t \<noteq> [] \<longrightarrow>
        (\<exists>rows. scatter_filter t g = Scatter rows
           \<and> mset rows = mset (filter (\<lambda>r. gender r = Some g) t)
           \<and> sorted_wrt (\<lambda>x y. activity_rank x \<le> activity_rank y) rows))"
  by (simp add: scatter_filter_def Let_def nargsort_Nil_iff mset_nargsort scatter_filter_sorted)

theorem scatter_filter_view_witness:
  "filter (\<lambda>r. gender r = Some ''Other'') example_table = []
   \<and> scatter_filter example_table ''Other'' = No_data_warning
   \<and> filter (\<lambda>r. gender r = Some ''Female'') example_table \<noteq> []
   \<and> (\<exists>rows. scatter_filter example_table ''Female'' = Scatter rows
         \<and> mset rows = mset (filter (\<lambda>r. gender r = Some ''Female'') example_table)
         \<and> sorted_wrt (\<lambda>x y. activity_rank x \<le> activity_rank y) rows)"
proof -
  have e: "filter (\<lambda>r. gender r = Some ''Other'') example_table = []"
    by code_simp
  have n: "filter (\<lambda>r. gender r = Some ''Female'') example_table \<noteq> []"
    by code_simp
  note w1 = scatter_filter_view [where t = example_table and g = "''Other''", THEN conjunct1, THEN mp, OF e]
  note w2 = scatter_filter_view [where t = example_table and g = "''Female''", THEN conjunct2, THEN mp, OF n]
  from e w1 n w2 show ?thesis
    by (intro conjI)
qed

section \<open>Step 6: the labels and links of the flow diagram\<close>

lemma set_unique: "set (unique xs) = set xs"
  by (induction xs rule: unique.induct) auto

lemma distinct_unique: "distinct (unique xs)"
  by (induction xs rule: unique.induct) (auto simp: set_unique)

lemma fold_enumerate_other:
  "x \<notin> set xs \<Longrightarrow>
     fold (\<lambda>(i, label) d. d(label \<mapsto> i)) (enumerate n xs) m x = m x"
  by (induction xs arbitrary: n m) auto

lemma fold_enumerate_nth:
  "distinct xs \<Longrightarrow> i < length xs \<Longrightarrow>
     fold (\<lambda>(i, label) d. d(label \<mapsto> i)) (enumerate n xs) m (xs ! i) = Some (n + i)"
proof (induction xs arbitrary: n m i)
  case Nil
  then show ?case by simp
next
  case (Cons x xs)
  let ?f = "\<lambda>(i, label) d. d(label \<mapsto> i)"
  have step: "fold ?f (enumerate n (x # xs)) m = fold ?f (enumerate (Suc n) xs) (m(x \<mapsto> n))"
    by simp
  show ?case
  proof (cases i)
    case 0
    from Cons.prems have "x \<notin> set xs"
      by simp
    then have "fold ?f (enumerate (Suc n) xs) (m(x \<mapsto> n)) x = (m(x \<mapsto> n)) x"
      by (rule fold_enumerate_other)
    with 0 show ?thesis
      by (simp only: step nth_Cons_0 fun_upd_same add_0_right)
  next
    case (Suc k)
    with Cons.prems have "distinct xs" and "k < length xs"
      by simp_all
    then have "fold ?f (enumerate (Suc n) xs) (m(x \<mapsto> n)) (xs ! k) = Some (Suc n + k)"
      by (rule Cons.IH)
    with Suc show ?thesis
      by (simp only: step nth_Cons_Suc add_Suc add_Suc_right)
  qed
qed

lemma label_indices_nth:
  "distinct labels \<Longrightarrow> i < length labels \<Longrightarrow> label_indices labels (labels ! i) = Some i"
  using fold_enumerate_nth [of labels i 0 Map.empty] by (simp add: label_indices_def)

lemma sankey_data_keys:
  assumes "(a, g, c) \<in> set (sankey_data ob (df csv) lvl)"
  shows "a \<in> set activity_order" and "g = ''Male'' \<or> g = ''Female''"
proof -
  let ?f = "filter (\<lambda>r. intensity r = Some lvl) (df csv)"
  from assms have "a \<in> set activity_order \<and> g \<in> set (group_levels (map gender ?f))"
    by (auto simp: sankey_data_def Let_def dest: groupby2_keys)
  then show "a \<in> set activity_order" and "g = ''Male'' \<or> g = ''Female''"
    using df_gender_cases [of _ csv g] by (auto simp: set_group_levels)
qed

lemma gender_not_activity: "''Male'' \<notin> set activity_order" "''Female'' \<notin> set activity_order"
  by (simp_all add: activity_order_def)

lemma distinct_all_labels: "distinct (all_labels (sankey_data ob (df csv) lvl))"
proof -
  let ?sd = "sankey_data ob (df csv) lvl"
  have "set (activity_labels ?sd) \<subseteq> set activity_order"
    using sankey_data_keys(1) [of _ _ _ ob csv lvl]
    by (auto simp: activity_labels_def set_unique)
  moreover have "set (gender_labels ?sd) \<subseteq> {''Male'', ''Female''}"
    using sankey_data_keys(2) [of _ _ _ ob csv lvl]
    by (auto simp: gender_labels_def set_unique)
  ultimately have "set (activity_labels ?sd) \<inter> set (gender_labels ?sd) = {}"
    using gender_not_activity by blast
  then show ?thesis
    by (simp add: all_labels_def activity_labels_def gender_labels_def distinct_unique)
qed

lemma activity_label_index:
  assumes "i < length (activity_labels (sankey_data ob (df csv) lvl))"
  shows "label_indices (all_labels (sankey_data ob (df csv) lvl))
           (activity_labels (sankey_data ob (df csv) lvl) ! i) = Some i"
proof -
  let ?sd = "sankey_data ob (df csv) lvl"
  from assms have "i < length (all_labels ?sd)"
    and "all_labels ?sd ! i = activity_labels ?sd ! i"
    by (simp_all add: all_labels_def nth_append)
  with label_indices_nth [OF distinct_all_labels, of i ob csv lvl] show ?thesis
    by simp
qed

lemma gender_label_index:
  assumes "j < length (gender_labels (sankey_data ob (df csv) lvl))"
  shows "label_indices (all_labels (sankey_data ob (df csv) lvl))
           (gender_labels (sankey_data ob (df csv) lvl) ! j)
         = Some (length (activity_labels (sankey_data ob (df csv) lvl)) + j)"
proof -
  let ?sd = "sankey_data ob (df csv) lvl"
  let ?N = "length (activity_labels ?sd)"
  from assms have "?N + j < length (all_labels ?sd)"
    and "all_labels ?sd ! (?N + j) = gender_labels ?sd ! j"
    by (simp_all add: all_labels_def nth_append)
  with label_indices_nth [OF distinct_all_labels, of "?N + j" ob csv lvl] show ?thesis
    by simp
qed

lemma link_indices:
  assumes "(s, t, v) \<in> set (sankey_links (sankey_data ob (df csv) lvl))"
  shows "\<exists>i j. s = Some i \<and> i < length (activity_labels (sankey_data ob (df csv) lvl))
           \<and> t = Some (length (activity_labels (sankey_data ob (df csv) lvl)) + j)
           \<and> j < length (gender_labels (sankey_data ob (df csv) lvl))"
proof -
  let ?sd = "sankey_data ob (df csv) lvl"
  from assms obtain a g where row: "(a, g, v) \<in> set ?sd"
    and s: "s = label_indices (all_labels ?sd) a"
    and t: "t = label_indices (all_labels ?sd) g"
    by (auto simp: sankey_links_def series_map_def)
  from row have "a \<in> set (activity_labels ?sd)"
    by (force simp: activity_labels_def set_unique)
  then obtain i where i: "i < length (activity_labels ?sd)" "activity_labels ?sd ! i = a"
    by (auto simp: in_set_conv_nth)
  from row have "g \<in> set (gender_labels ?sd)"
    by (force simp: gender_labels_def set_unique)
  then obtain j where j: "j < length (gender_labels ?sd)" "gender_labels ?sd ! j = g"
    by (auto simp: in_set_conv_nth)
  from activity_label_index [OF i(1)] i(2) s have "s = Some i"
    by simp
  moreover from gender_label_index [OF j(1)] j(2) t
  have "t = Some (length (activity_labels ?sd) + j)"
    by simp
  ultimately show ?thesis
    using i(1) j(1) by blast
qed

text \<open>
  C1. For every CSV table and intensity and either grouping default, with N distinct
  activities and M distinct genders in the step 6 summary of the loaded frame: the activity labels, in order of
  first occurrence, are the nodes 0 to N - 1 and the gender labels, in order of first
  occurrence, are the nodes N to N + M - 1, the dictionary gives each label its node
  index, and every link has its source index below N and its target index from N to
  N + M - 1.
\<close>

theorem flow_view_label_indices:
  assumes "sd = sankey_data ob (df csv) lvl"
    and "N = length (activity_labels sd)" and "M = length (gender_labels sd)"
  shows "(i < N \<longrightarrow> all_labels sd ! i = activity_labels sd ! i
            \<and> label_indices (all_labels sd) (activity_labels sd ! i) = Some i)
       \<and> (j < M \<longrightarrow> all_labels sd ! (N + j) = gender_labels sd ! j
            \<and> label_indices (all_labels sd) (gender_labels sd ! j) = Some (N + j))
       \<and> ((s, t, v) \<in> set (sankey_links sd) \<longrightarrow>
            (\<exists>a b. s = Some a \<and> a < N \<and> t = Some b \<and> N \<le> b \<and> b < N + M))"
proof (intro conjI impI)
  assume "i < N"
  with assms show "all_labels sd ! i = activity_labels sd ! i"
    by (simp add: all_labels_def nth_append)
  from \<open>i < N\<close> assms show "label_indices (all_labels sd) (activity_labels sd ! i) = Some i"
    by (simp add: activity_label_index)
next
  assume "j < M"
  with assms show "all_labels sd ! (N + j) = gender_labels sd ! j"
    by (simp add: all_labels_def nth_append)
  from \<open>j < M\<close> assms
  show "label_indices (all_labels sd) (gender_labels sd ! j) = Some (N + j)"
    by (simp add: gender_label_index)
next
  assume "(s, t, v) \<in> set (sankey_links sd)"
  with assms(1) have "(s, t, v) \<in> set (sankey_links (sankey_data ob (df csv) lvl))"
    by simp
  from link_indices [OF this] assms
  show "\<exists>a b. s = Some a \<and> a < N \<and> t = Some b \<and> N \<le> b \<and> b < N + M"
    by auto
qed

theorem flow_view_label_indices_witness:
  "length (activity_labels flow_summary) = 10 \<and> length (gender_labels flow_summary) = 2
   \<and> all_labels flow_summary ! 3 = ''Yoga''
   \<and> label_indices (all_labels flow_summary) ''Yoga'' = Some 3
   \<and> all_labels flow_summary ! (10 + 1) = ''Male''
   \<and> label_indices (all_labels flow_summary) ''Male'' = Some (10 + 1)
   \<and> (Some 0, Some 11, Some 300) \<in> set (sankey_links flow_summary)
   \<and> (\<exists>a b. Some 0 = Some a \<and> a < (10::nat) \<and> Some 11 = Some b \<and> (10::nat) \<le> b
         \<and> b < 10 + 2)"
proof -
  have sd: "flow_summary = sankey_data False (df flow_csv) ''High''"
    by (rule flow_summary_def)
  have N: "10 = length (activity_labels flow_summary)"
    by code_simp
  have M: "2 = length (gender_labels flow_summary)"
    by code_simp
  have a: "activity_labels flow_summary ! 3 = ''Yoga''"
    by code_simp
  have g: "gender_labels flow_summary ! 1 = ''Male''"
    by code_simp
  have l: "(Some 0, Some 11, Some 300) \<in> set (sankey_links flow_summary)"
    by code_simp
  note w = flow_view_label_indices [OF sd N M, where i = 3 and j = 1 and s = "Some 0"
      and t = "Some 11" and v = "Some 300"]
  have i: "(3::nat) < 10" and j: "(1::nat) < 2"
    by simp_all
  note w1 = w [THEN conjunct1, THEN mp, OF i]
  note w2 = w [THEN conjunct2, THEN conjunct1, THEN mp, OF j]
  note w3 = w [THEN conjunct2, THEN conjunct2, THEN mp, OF l]
  from w1 a have "all_labels flow_summary ! 3 = ''Yoga''"
    and "label_indices (all_labels flow_summary) ''Yoga'' = Some 3"
    by simp_all
  moreover from w2 g have "all_labels flow_summary ! (10 + 1) = ''Male''"
    and "label_indices (all_labels flow_summary) ''Male'' = Some (10 + 1)"
    by simp_all
  ultimately show ?thesis
    using N M l w3 by (intro conjI) simp_all
qed

section \<open>Derivations that are fed no row\<close>

lemma groupby1_no_rows: "groupby1 True levels key [] = []"
  by (induction levels) (simp_all add: groupby1_def)

lemma nargsort_no_rows: "nargsort asc key [] = []"
  by (simp add: nargsort_Nil_iff)

lemma activity_frequency_no_rows: "activity_frequency [] = []"
  by (auto simp: activity_frequency_def filter_empty_conv set_value_counts)

lemma activity_frequency_by_gender_no_rows: "activity_frequency_by_gender ob [] = []"
  by (simp add: activity_frequency_by_gender_def group_levels_Nil groupby2_no_levels)

lemma top_activities_no_rows: "top_activities [] = []"
  by (simp add: top_activities_def activity_stats_def groupby1_no_rows nargsort_no_rows
      dropna_def)

lemma activity_summary_no_rows: "activity_summary ob [] = []"
  by (simp add: activity_summary_def group_levels_Nil groupby2_no_levels)

lemma sankey_data_no_rows:
  "filter (\<lambda>r. intensity r = Some lvl) t = [] \<Longrightarrow> sankey_data ob t lvl = []"
  by (simp add: sankey_data_def group_levels_Nil groupby2_no_levels)

lemma age_activity_stats_no_rows:
  "filter (\<lambda>r. intensity r = Some lvl) t = [] \<Longrightarrow> age_activity_stats ob t lvl = []"
  by (simp add: age_activity_stats_def group_levels_Nil groupby2_no_levels)

lemma sankey_no_rows:
  "all_labels [] = []" "sankey_links [] = []"
  by (simp_all add: all_labels_def activity_labels_def gender_labels_def sankey_links_def)

text \<open>
  C5. A derivation whose grouping is fed no row yields the empty table, whichever
  the grouping default, and none fails: the derivations are total functions. Steps 1 to 4 yield the empty table on a
  base table without rows; steps 6 and 7, on any base table, yield the empty table for
  an intensity that no row has, and step 6 then has no labels and no links.
\<close>

theorem no_matching_rows_empty_summary:
  "(t = [] \<longrightarrow>
      activity_frequency t = [] \<and> activity_frequency_by_gender ob t = []
      \<and> top_activities t = [] \<and> activity_summary ob t = [])
   \<and> (filter (\<lambda>r. intensity r = Some lvl) t = [] \<longrightarrow>
      sankey_data ob t lvl = [] \<and> all_labels (sankey_data ob t lvl) = []
      \<and> sankey_links (sankey_data ob t lvl) = [] \<and> age_activity_stats ob t lvl = [])"
  by (simp add: activity_frequency_no_rows activity_frequency_by_gender_no_rows
      top_activities_no_rows activity_summary_no_rows sankey_data_no_rows
      age_activity_stats_no_rows sankey_no_rows)

theorem no_matching_rows_empty_summary_witness:
  "activity_frequency [] = [] \<and> activity_frequency_by_gender False [] = []
   \<and> top_activities [] = [] \<and> activity_summary False [] = []
   \<and> example_table \<noteq> []
   \<and> filter (\<lambda>r. intensity r = Some ''Medium'') example_table = []
   \<and> sankey_data False example_table ''Medium'' = []
   \<and> all_labels (sankey_data False example_table ''Medium'') = []
   \<and> sankey_links (sankey_data False example_table ''Medium'') = []
   \<and> age_activity_stats False example_table ''Medium'' = []"
proof -
  have e: "filter (\<lambda>r. intensity r = Some ''Medium'') example_table = []"
    by code_simp
  have n: "example_table \<noteq> []"
    by code_simp
  note w1 = no_matching_rows_empty_summary
    [where t = "[]" and lvl = "''Medium''" and ob = False, THEN conjunct1, THEN mp, OF refl]
  note w2 = no_matching_rows_empty_summary
    [where t = example_table and lvl = "''Medium''" and ob = False, THEN conjunct2, THEN mp,
      OF e]
  from w1 w2 e n show ?thesis
    by (intro conjI) (elim conjE, assumption)+
qed

section \<open>The worked example\<close>

text \<open>
  C9. On the table of the three rows (Running, Male, High, 30, 300), (Running, Female,
  High, 25, 260) and (Yoga, Female, Low, 40, 150), step 1 yields (Running, 2),
  (Yoga, 1) and step 3 yields (Running, 280, 27.5), (Yoga, 150, 40), Running first.
\<close>

theorem example_table_steps_1_and_3:
  "activity_frequency example_table = [(''Running'', 2), (''Yoga'', 1)]
   \<and> top_activities example_table =
       [(''Running'', Some 280, Some (55 / 2)), (''Yoga'', Some 150, Some 40)]"
proof
  show "activity_frequency example_table = [(''Running'', 2), (''Yoga'', 1)]"
    by code_simp
  show "top_activities example_table =
       [(''Running'', Some 280, Some (55 / 2)), (''Yoga'', Some 150, Some 40)]"
    by code_simp
qed

end
